theory Spec2Isabelle
  imports Main "HOL-Library.Word"
begin

unbundle bit_operations_syntax

section \<open>Text and bytes\<close>

text \<open>
  The client (\<^verbatim>\<open>accessgrid/client.py\<close>) works on Python \<^verbatim>\<open>str\<close> and \<^verbatim>\<open>bytes\<close>.
  A \<^verbatim>\<open>str\<close> is modelled as a \<^typ>\<open>string\<close> whose characters are the code points
  0 to 255; \<^verbatim>\<open>bytes\<close> are lists of 8-bit words. Code points from 256 on and
  floating-point numbers are outside the model.
\<close>

type_synonym byte = "8 word"
type_synonym u32 = "32 word"

text \<open>\<^verbatim>\<open>str.encode()\<close>: UTF-8, one byte below 128 and two bytes from 128 to 255.\<close>

definition utf8_char :: "char \<Rightarrow> byte list" where
  "utf8_char c =
     (let n = (of_char c :: nat)
      in if n < 128 then [of_nat n] else [of_nat (192 + n div 64), of_nat (128 + n mod 64)])"

definition encode :: "string \<Rightarrow> byte list" where
  "encode s = concat (map utf8_char s)"

text \<open>
  \<^verbatim>\<open>bytes.decode()\<close> on the output of \<^verbatim>\<open>b64encode\<close>, which is ASCII: each byte becomes
  the character of the same code.
\<close>

definition decode :: "byte list \<Rightarrow> string" where
  "decode bs = map (\<lambda>b. char_of (unat b)) bs"

definition hexdigit :: "nat \<Rightarrow> char" where
  "hexdigit n = ''0123456789abcdef'' ! (n mod 16)"

text \<open>\<^verbatim>\<open>hexdigest()\<close>: two lowercase hexadecimal digits for each byte.\<close>

definition hexdigest :: "byte list \<Rightarrow> string" where
  "hexdigest bs = concat (map (\<lambda>b. [hexdigit (unat b div 16), hexdigit (unat b mod 16)]) bs)"

subsection \<open>\<^verbatim>\<open>base64.b64encode\<close>\<close>

definition b64_digit :: "nat \<Rightarrow> byte" where
  "b64_digit n =
     of_char (''ABCDEFGHIJKLMNOPQRSTUVWXYZabcdefghijklmnopqrstuvwxyz0123456789+/'' ! (n mod 64))"

fun b64encode :: "byte list \<Rightarrow> byte list" where
  "b64encode (a # b # c # bs) =
     (let n = unat a * 65536 + unat b * 256 + unat c
      in [b64_digit (n div 262144), b64_digit (n div 4096), b64_digit (n div 64), b64_digit n]
         @ b64encode bs)"
| "b64encode [a, b] =
     (let n = unat a * 65536 + unat b * 256
      in [b64_digit (n div 262144), b64_digit (n div 4096), b64_digit (n div 64), 0x3D])"
| "b64encode [a] =
     (let n = unat a * 65536
      in [b64_digit (n div 262144), b64_digit (n div 4096), 0x3D, 0x3D])"
| "b64encode [] = []"

subsection \<open>\<^verbatim>\<open>hashlib.sha256\<close>\<close>

definition rotr :: "nat \<Rightarrow> u32 \<Rightarrow> u32" where
  "rotr n x = drop_bit n x OR push_bit (32 - n) x"

definition K256 :: "u32 list" where
  "K256 = [
    0x428A2F98, 0x71374491, 0xB5C0FBCF, 0xE9B5DBA5, 0x3956C25B, 0x59F111F1, 0x923F82A4, 0xAB1C5ED5,
    0xD807AA98, 0x12835B01, 0x243185BE, 0x550C7DC3, 0x72BE5D74, 0x80DEB1FE, 0x9BDC06A7, 0xC19BF174,
    0xE49B69C1, 0xEFBE4786, 0x0FC19DC6, 0x240CA1CC, 0x2DE92C6F, 0x4A7484AA, 0x5CB0A9DC, 0x76F988DA,
    0x983E5152, 0xA831C66D, 0xB00327C8, 0xBF597FC7, 0xC6E00BF3, 0xD5A79147, 0x06CA6351, 0x14292967,
    0x27B70A85, 0x2E1B2138, 0x4D2C6DFC, 0x53380D13, 0x650A7354, 0x766A0ABB, 0x81C2C92E, 0x92722C85,
    0xA2BFE8A1, 0xA81A664B, 0xC24B8B70, 0xC76C51A3, 0xD192E819, 0xD6990624, 0xF40E3585, 0x106AA070,
    0x19A4C116, 0x1E376C08, 0x2748774C, 0x34B0BCB5, 0x391C0CB3, 0x4ED8AA4A, 0x5B9CCA4F, 0x682E6FF3,
    0x748F82EE, 0x78A5636F, 0x84C87814, 0x8CC70208, 0x90BEFFFA, 0xA4506CEB, 0xBEF9A3F7, 0xC67178F2]"

definition H256 :: "u32 list" where
  "H256 = [0x6A09E667, 0xBB67AE85, 0x3C6EF372, 0xA54FF53A,
           0x510E527F, 0x9B05688C, 0x1F83D9AB, 0x5BE0CD19]"

definition ssig0 :: "u32 \<Rightarrow> u32" where
  "ssig0 x = rotr 7 x XOR rotr 18 x XOR drop_bit 3 x"

definition ssig1 :: "u32 \<Rightarrow> u32" where
  "ssig1 x = rotr 17 x XOR rotr 19 x XOR drop_bit 10 x"

definition bsig0 :: "u32 \<Rightarrow> u32" where
  "bsig0 x = rotr 2 x XOR rotr 13 x XOR rotr 22 x"

definition bsig1 :: "u32 \<Rightarrow> u32" where
  "bsig1 x = rotr 6 x XOR rotr 11 x XOR rotr 25 x"

definition ch :: "u32 \<Rightarrow> u32 \<Rightarrow> u32 \<Rightarrow> u32" where
  "ch x y z = (x AND y) XOR (NOT x AND z)"

definition maj :: "u32 \<Rightarrow> u32 \<Rightarrow> u32 \<Rightarrow> u32" where
  "maj x y z = (x AND y) XOR (x AND z) XOR (y AND z)"

text \<open>Big-endian words of a block.\<close>

fun be32 :: "byte list \<Rightarrow> u32 list" where
  "be32 (a # b # c # d # bs) =
     (push_bit 24 (ucast a) OR push_bit 16 (ucast b) OR push_bit 8 (ucast c) OR ucast d) # be32 bs"
| "be32 _ = []"

text \<open>The message schedule: the window holds the last 16 words, oldest first.\<close>

fun schedule :: "nat \<Rightarrow> u32 list \<Rightarrow> u32 list" where
  "schedule 0 w = []"
| "schedule (Suc n) w =
     (let x = ssig1 (w ! 14) + w ! 9 + ssig0 (w ! 1) + w ! 0
      in x # schedule n (tl w @ [x]))"

fun rounds :: "u32 list \<Rightarrow> u32 list \<Rightarrow> u32 list \<Rightarrow> u32 list" where
  "rounds [a, b, c, d, e, f, g, h] (k # ks) (w # ws) =
     (let t1 = h + bsig1 e + ch e f g + k + w;
          t2 = bsig0 a + maj a b c
      in rounds [t1 + t2, a, b, c, d + t1, e, f, g] ks ws)"
| "rounds s _ _ = s"

definition compress :: "u32 list \<Rightarrow> byte list \<Rightarrow> u32 list" where
  "compress s blk =
     (let w = be32 blk in map2 (+) s (rounds s K256 (w @ schedule 48 w)))"

definition word_bytes :: "'a::len word \<Rightarrow> nat \<Rightarrow> byte list" where
  "word_bytes x n = map (\<lambda>i. ucast (drop_bit (8 * i) x)) (rev [0..<n])"

definition pad :: "byte list \<Rightarrow> byte list" where
  "pad m = m @ [0x80] @ replicate ((119 - length m mod 64) mod 64) 0
             @ word_bytes (of_nat (8 * length m) :: 64 word) 8"

function blocks :: "byte list \<Rightarrow> byte list list" where
  "blocks m = (if m = [] then [] else take 64 m # blocks (drop 64 m))"
  by pat_completeness auto
termination
  by (relation "measure length") auto

definition sha256 :: "byte list \<Rightarrow> byte list" where
  "sha256 m = concat (map (\<lambda>x. word_bytes x 4) (foldl compress H256 (blocks (pad m))))"

subsection \<open>\<^verbatim>\<open>hmac.new(key, msg, hashlib.sha256)\<close>\<close>

text \<open>
  The key is brought to the block size of 64 bytes: a longer key is hashed first, and the
  result is filled up with zero bytes on the right.
\<close>

definition hmac_key_block :: "byte list \<Rightarrow> byte list" where
  "hmac_key_block key =
     (let k = (if length key > 64 then sha256 key else key)
      in k @ replicate (64 - length k) 0)"

definition hmac_sha256 :: "byte list \<Rightarrow> byte list \<Rightarrow> byte list" where
  "hmac_sha256 key msg =
     (let k = hmac_key_block key
      in sha256 (map (\<lambda>b. b XOR 0x5C) k @ sha256 (map (\<lambda>b. b XOR 0x36) k @ msg)))"

section \<open>JSON values\<close>

text \<open>
  A Python \<^verbatim>\<open>dict\<close> keeps the order in which its keys were inserted, and
  \<^verbatim>\<open>json.dumps\<close> writes them in that order: an object is an association list.
  \<^verbatim>\<open>JNull\<close> is Python's \<^verbatim>\<open>None\<close>.
\<close>

datatype json =
    JNull
  | JBool bool
  | JInt int
  | JString string
  | JArray "json list"
  | JObject "(string \<times> json) list"

type_synonym dict = "(string \<times> json) list"

fun join :: "string \<Rightarrow> string list \<Rightarrow> string" where
  "join sep [] = []"
| "join sep [x] = x"
| "join sep (x # y # ys) = x @ sep @ join sep (y # ys)"

fun digits :: "nat \<Rightarrow> string" where
  "digits n = (if n < 10 then [hexdigit n] else digits (n div 10) @ [hexdigit (n mod 10)])"

declare digits.simps [simp del]

definition str_int :: "int \<Rightarrow> string" where
  "str_int i = (if i < 0 then CHR ''-'' # digits (nat (- i)) else digits (nat i))"

subsection \<open>\<^verbatim>\<open>json.dumps\<close> with its defaults\<close>

text \<open>
  \<^verbatim>\<open>ensure_ascii=True\<close>: the quote and the backslash are escaped with a backslash, the
  control characters that have a short form use it, and every other character outside
  the range from space to tilde becomes \<^verbatim>\<open>\uXXXX\<close>. The separators are
  \<^verbatim>\<open>", "\<close> and \<^verbatim>\<open>": "\<close>.
\<close>

definition json_escape :: "char \<Rightarrow> string" where
  "json_escape c =
     (let n = (of_char c :: nat) in
      if c = CHR 0x22 then [CHR 0x5C, CHR 0x22]
      else if c = CHR 0x5C then [CHR 0x5C, CHR 0x5C]
      else if c = CHR 0x0A then [CHR 0x5C, CHR ''n'']
      else if c = CHR 0x0D then [CHR 0x5C, CHR ''r'']
      else if c = CHR 0x09 then [CHR 0x5C, CHR ''t'']
      else if c = CHR 0x08 then [CHR 0x5C, CHR ''b'']
      else if c = CHR 0x0C then [CHR 0x5C, CHR ''f'']
      else if 32 \<le> n \<and> n < 127 then [c]
      else [CHR 0x5C, CHR ''u'', CHR ''0'', CHR ''0'', hexdigit (n div 16), hexdigit (n mod 16)])"

definition json_quote :: "string \<Rightarrow> string" where
  "json_quote s = [CHR 0x22] @ concat (map json_escape s) @ [CHR 0x22]"

fun dumps :: "json \<Rightarrow> string" where
  "dumps JNull = ''null''"
| "dumps (JBool b) = (if b then ''true'' else ''false'')"
| "dumps (JInt i) = str_int i"
| "dumps (JString s) = json_quote s"
| "dumps (JArray xs) = ''['' @ join '', '' (map dumps xs) @ '']''"
| "dumps (JObject kvs) =
     ''{'' @ join '', '' (map (\<lambda>kv. json_quote (fst kv) @ '': '' @ dumps (snd kv)) kvs) @ ''}''"

subsection \<open>\<^verbatim>\<open>str()\<close> of a value, as an f-string applies it\<close>

text \<open>
  \<^verbatim>\<open>str\<close> of a string is the string itself; inside a list or a dict a string is shown
  by \<^verbatim>\<open>repr\<close>, in single quotes unless it holds a single quote and no double quote.
\<close>

definition printable :: "char \<Rightarrow> bool" where
  "printable c = (let n = (of_char c :: nat) in (32 \<le> n \<and> n < 127) \<or> (161 \<le> n \<and> n \<noteq> 173))"

definition repr_char :: "char \<Rightarrow> char \<Rightarrow> string" where
  "repr_char q c =
     (let n = (of_char c :: nat) in
      if c = q \<or> c = CHR 0x5C then [CHR 0x5C, c]
      else if c = CHR 0x09 then [CHR 0x5C, CHR ''t'']
      else if c = CHR 0x0A then [CHR 0x5C, CHR ''n'']
      else if c = CHR 0x0D then [CHR 0x5C, CHR ''r'']
      else if printable c then [c]
      else [CHR 0x5C, CHR ''x'', hexdigit (n div 16), hexdigit (n mod 16)])"

definition repr_str :: "string \<Rightarrow> string" where
  "repr_str s =
     (let q = (if CHR 0x27 \<in> set s \<and> CHR 0x22 \<notin> set s then CHR 0x22 else CHR 0x27)
      in [q] @ concat (map (repr_char q) s) @ [q])"

fun py_repr :: "json \<Rightarrow> string" where
  "py_repr JNull = ''None''"
| "py_repr (JBool b) = (if b then ''True'' else ''False'')"
| "py_repr (JInt i) = str_int i"
| "py_repr (JString s) = repr_str s"
| "py_repr (JArray xs) = ''['' @ join '', '' (map py_repr xs) @ '']''"
| "py_repr (JObject kvs) =
     ''{'' @ join '', '' (map (\<lambda>kv. repr_str (fst kv) @ '': '' @ py_repr (snd kv)) kvs) @ ''}''"

definition py_str :: "json \<Rightarrow> string" where
  "py_str v = (case v of JString s \<Rightarrow> s | _ \<Rightarrow> py_repr v)"

definition type_name :: "json \<Rightarrow> string" where
  "type_name v =
     (case v of JNull \<Rightarrow> ''NoneType'' | JBool _ \<Rightarrow> ''bool'' | JInt _ \<Rightarrow> ''int''
      | JString _ \<Rightarrow> ''str'' | JArray _ \<Rightarrow> ''list'' | JObject _ \<Rightarrow> ''dict'')"

section \<open>Errors\<close>

text \<open>
  \<^verbatim>\<open>AccessGridError\<close> and its subclass \<^verbatim>\<open>AuthenticationError\<close> are the client's own
  exceptions. \<^verbatim>\<open>ValueError\<close> and \<^verbatim>\<open>AttributeError\<close> are Python's, and
  \<^verbatim>\<open>RequestException\<close> is the base class of what the \<^verbatim>\<open>requests\<close> library raises.
  An \<^verbatim>\<open>AccessGridError\<close> that is not an \<^verbatim>\<open>AuthenticationError\<close> is the constructor
  \<open>AccessGridError\<close>. Each carries its message.
\<close>

datatype error =
    ValueError string
  | AuthenticationError string
  | AccessGridError string
  | AttributeError string
  | RequestException string

text \<open>Calling \<^verbatim>\<open>.get\<close> on a value that is no dict.\<close>

definition no_get :: "json \<Rightarrow> error" where
  "no_get v = AttributeError ([CHR 0x27] @ type_name v @ [CHR 0x27] @ '' object has no attribute ''
                @ [CHR 0x27] @ ''get'' @ [CHR 0x27])"

text \<open>\<^verbatim>\<open>data.get(key)\<close> and \<^verbatim>\<open>data.get(key, default)\<close>.\<close>

definition dict_get :: "json \<Rightarrow> string \<Rightarrow> json \<Rightarrow> error + json" where
  "dict_get data key dflt =
     (case data of
        JObject kvs \<Rightarrow> Inr (case map_of kvs key of None \<Rightarrow> dflt | Some v \<Rightarrow> v)
      | _ \<Rightarrow> Inl (no_get data))"

section \<open>The HTTP library\<close>

text \<open>
  A request is the argument list of \<^verbatim>\<open>requests.request\<close>. A response carries what the
  client reads from it: \<^verbatim>\<open>status_code\<close>, \<^verbatim>\<open>text\<close> and the outcome of \<^verbatim>\<open>json()\<close>,
  which is the decoded document or, for a body that is no JSON document (the empty body
  is none), the description of the decoding error.

  The world holds the remote service, a function from the request to a response or to
  the description of a transport failure, the installed package version, and the log of
  the calls of \<^verbatim>\<open>requests.request\<close> so far.
\<close>

record request =
  req_method :: string
  req_url :: string
  req_headers :: "(string \<times> string) list"
  req_json :: "dict option"
  req_params :: "dict option"

record response =
  status_code :: int
  resp_text :: string
  resp_json :: "string + json"

record world =
  server :: "request \<Rightarrow> string + response"
  version :: string
  sent :: "request list"

text \<open>\<^verbatim>\<open>requests.request(...)\<close>: a transport failure is a \<^verbatim>\<open>RequestException\<close>.\<close>

definition requests_request :: "request \<Rightarrow> world \<Rightarrow> (error + response) \<times> world" where
  "requests_request req w =
     (case server w req of Inl m \<Rightarrow> Inl (RequestException m) | Inr r \<Rightarrow> Inr r,
      w\<lparr>sent := sent w @ [req]\<rparr>)"

text \<open>
  \<^verbatim>\<open>response.json()\<close>: the decoding error of \<^verbatim>\<open>requests\<close> (2.27 and later) is
  \<^verbatim>\<open>requests.exceptions.JSONDecodeError\<close>, a \<^verbatim>\<open>RequestException\<close>.
\<close>

definition response_json :: "response \<Rightarrow> error + json" where
  "response_json r = (case resp_json r of Inl m \<Rightarrow> Inl (RequestException m) | Inr v \<Rightarrow> Inr v)"

section \<open>The top-level client\<close>

record client =
  account_id :: string
  secret_key :: string
  base_url :: string

text \<open>\<^verbatim>\<open>str.rstrip(c)\<close> for a single character.\<close>

definition rstrip :: "char \<Rightarrow> string \<Rightarrow> string" where
  "rstrip c s = rev (dropWhile (\<lambda>x. x = c) (rev s))"

text \<open>
  \<^verbatim>\<open>AccessGrid.__init__\<close>. An argument \<open>None\<close> for the account id or the secret key is
  Python's \<^verbatim>\<open>None\<close>; for the base URL it is the omitted argument, which takes the default.
\<close>

definition AccessGrid_init ::
  "string option \<Rightarrow> string option \<Rightarrow> string option \<Rightarrow> world \<Rightarrow> (error + client) \<times> world" where
  "AccessGrid_init acct secret url w =
     (case acct of
        None \<Rightarrow> (Inl (ValueError ''Account ID is required''), w)
      | Some a \<Rightarrow>
          if a = [] then (Inl (ValueError ''Account ID is required''), w)
          else (case secret of
             None \<Rightarrow> (Inl (ValueError ''Secret Key is required''), w)
           | Some k \<Rightarrow>
               if k = [] then (Inl (ValueError ''Secret Key is required''), w)
               else (Inr \<lparr>account_id = a, secret_key = k,
                          base_url = rstrip CHR ''/''
                            (case url of None \<Rightarrow> ''https://api.accessgrid.com'' | Some u \<Rightarrow> u)\<rparr>,
                     w)))"

text \<open>\<^verbatim>\<open>AccessGrid._generate_signature\<close>\<close>

definition generate_signature :: "client \<Rightarrow> string \<Rightarrow> string" where
  "generate_signature c payload =
     (let encoded_payload = decode (b64encode (encode payload))
      in hexdigest (hmac_sha256 (encode (secret_key c)) (encode encoded_payload)))"

text \<open>
  \<^verbatim>\<open>AccessGrid._make_request\<close>, in three parts: the request that is built, the
  classification of the response inside the \<^verbatim>\<open>try\<close>, and the \<^verbatim>\<open>except\<close> clause.
  \<^verbatim>\<open>data if data else ...\<close> takes the second branch for \<^verbatim>\<open>None\<close> and for the empty dict.
\<close>

definition payload_of :: "dict option \<Rightarrow> string" where
  "payload_of data =
     (case data of
        None \<Rightarrow> []
      | Some kvs \<Rightarrow> if kvs = [] then [] else dumps (JObject kvs))"

definition json_of :: "dict option \<Rightarrow> dict option" where
  "json_of data =
     (case data of
        None \<Rightarrow> None
      | Some kvs \<Rightarrow> if kvs = [] then None else Some kvs)"

definition build_request ::
  "client \<Rightarrow> string \<Rightarrow> string \<Rightarrow> dict option \<Rightarrow> dict option \<Rightarrow> world \<Rightarrow> request" where
  "build_request c method endpoint data params w =
     (let url = base_url c @ endpoint;
          payload = payload_of data;
          headers = [(''X-ACCT-ID'', account_id c),
                     (''X-PAYLOAD-SIG'', generate_signature c payload),
                     (''Content-Type'', ''application/json''),
                     (''User-Agent'', ''accessgrid.py @ v'' @ version w)]
      in \<lparr>req_method = method, req_url = url, req_headers = headers,
          req_json = json_of data, req_params = params\<rparr>)"

definition check_response :: "response \<Rightarrow> error + json" where
  "check_response r =
     (if status_code r = 401 then Inl (AuthenticationError ''Invalid credentials'')
      else if status_code r = 402 then Inl (AccessGridError ''Insufficient account balance'')
      else if \<not> (200 \<le> status_code r \<and> status_code r < 300) then
        (case (if resp_text r \<noteq> [] then response_json r else Inr (JObject [])) of
           Inl e \<Rightarrow> Inl e
         | Inr error_data \<Rightarrow>
             (case dict_get error_data ''message'' (JString (resp_text r)) of
                Inl e \<Rightarrow> Inl e
              | Inr error_message \<Rightarrow>
                  Inl (AccessGridError (''API request failed: '' @ py_str error_message))))
      else response_json r)"

definition except_RequestException :: "error + 'a \<Rightarrow> error + 'a" where
  "except_RequestException r =
     (case r of
        Inl (RequestException m) \<Rightarrow> Inl (AccessGridError (''Request failed: '' @ m))
      | _ \<Rightarrow> r)"

definition make_request ::
  "client \<Rightarrow> string \<Rightarrow> string \<Rightarrow> dict option \<Rightarrow> dict option \<Rightarrow> world \<Rightarrow> (error + json) \<times> world" where
  "make_request c method endpoint data params w =
     (let rw = requests_request (build_request c method endpoint data params w) w
      in (except_RequestException
            (case fst rw of Inl e \<Rightarrow> Inl e | Inr r \<Rightarrow> check_response r),
          snd rw))"

text \<open>\<^verbatim>\<open>_get\<close>, \<^verbatim>\<open>_post\<close>, \<^verbatim>\<open>_put\<close> and \<^verbatim>\<open>_patch\<close>\<close>

definition http_get :: "client \<Rightarrow> string \<Rightarrow> dict option \<Rightarrow> world \<Rightarrow> (error + json) \<times> world" where
  "http_get c endpoint params w = make_request c ''GET'' endpoint None params w"

definition http_post :: "client \<Rightarrow> string \<Rightarrow> dict \<Rightarrow> world \<Rightarrow> (error + json) \<times> world" where
  "http_post c endpoint data w = make_request c ''POST'' endpoint (Some data) None w"

definition http_put :: "client \<Rightarrow> string \<Rightarrow> dict \<Rightarrow> world \<Rightarrow> (error + json) \<times> world" where
  "http_put c endpoint data w = make_request c ''PUT'' endpoint (Some data) None w"

definition http_patch :: "client \<Rightarrow> string \<Rightarrow> dict \<Rightarrow> world \<Rightarrow> (error + json) \<times> world" where
  "http_patch c endpoint data w = make_request c ''PATCH'' endpoint (Some data) None w"

section \<open>Result entities\<close>

text \<open>
  \<^verbatim>\<open>AccessCard\<close> and \<^verbatim>\<open>Template\<close>. The attributes carry the class as a prefix
  (\<^verbatim>\<open>card.id\<close> is \<open>card_id\<close>, \<^verbatim>\<open>card.url\<close> is \<open>card_url\<close>). The constructor reads each key
  with \<^verbatim>\<open>data.get\<close>, whose default is \<^verbatim>\<open>None\<close>; on a value that is no dict the first
  \<^verbatim>\<open>data.get\<close> raises.
\<close>

record AccessCard =
  card_client :: client
  card_id :: json
  card_url :: json
  card_state :: json
  card_full_name :: json
  card_expiration_date :: json

record Template =
  template_client :: client
  template_id :: json
  template_name :: json
  template_platform :: json
  template_use_case :: json
  template_protocol :: json
  template_created_at :: json
  template_last_published_at :: json
  template_issued_keys_count :: json
  template_active_keys_count :: json
  template_allowed_device_counts :: json
  template_support_settings :: json
  template_terms_settings :: json
  template_style_settings :: json

definition get_or_None :: "dict \<Rightarrow> string \<Rightarrow> json" where
  "get_or_None kvs key = (case map_of kvs key of None \<Rightarrow> JNull | Some v \<Rightarrow> v)"

definition AccessCard_init :: "client \<Rightarrow> json \<Rightarrow> error + AccessCard" where
  "AccessCard_init c data =
     (case data of
        JObject kvs \<Rightarrow>
          Inr \<lparr>card_client = c,
               card_id = get_or_None kvs ''id'',
               card_url = get_or_None kvs ''install_url'',
               card_state = get_or_None kvs ''state'',
               card_full_name = get_or_None kvs ''full_name'',
               card_expiration_date = get_or_None kvs ''expiration_date''\<rparr>
      | _ \<Rightarrow> Inl (no_get data))"

definition Template_init :: "client \<Rightarrow> json \<Rightarrow> error + Template" where
  "Template_init c data =
     (case data of
        JObject kvs \<Rightarrow>
          Inr \<lparr>template_client = c,
               template_id = get_or_None kvs ''id'',
               template_name = get_or_None kvs ''name'',
               template_platform = get_or_None kvs ''platform'',
               template_use_case = get_or_None kvs ''use_case'',
               template_protocol = get_or_None kvs ''protocol'',
               template_created_at = get_or_None kvs ''created_at'',
               template_last_published_at = get_or_None kvs ''last_published_at'',
               template_issued_keys_count = get_or_None kvs ''issued_keys_count'',
               template_active_keys_count = get_or_None kvs ''active_keys_count'',
               template_allowed_device_counts = get_or_None kvs ''allowed_device_counts'',
               template_support_settings = get_or_None kvs ''support_settings'',
               template_terms_settings = get_or_None kvs ''terms_settings'',
               template_style_settings = get_or_None kvs ''style_settings''\<rparr>
      | _ \<Rightarrow> Inl (no_get data))"

section \<open>Resource clients\<close>

text \<open>\<^verbatim>\<open>return Entity(self._client, response)\<close> after a request that may have raised.\<close>

definition wrap ::
  "(client \<Rightarrow> json \<Rightarrow> error + 'a) \<Rightarrow> client \<Rightarrow> (error + json) \<times> world \<Rightarrow> (error + 'a) \<times> world" where
  "wrap init c rw = (case fst rw of Inl e \<Rightarrow> Inl e | Inr response \<Rightarrow> init c response, snd rw)"

subsection \<open>\<^verbatim>\<open>AccessCards\<close>\<close>

definition issue :: "client \<Rightarrow> dict \<Rightarrow> world \<Rightarrow> (error + AccessCard) \<times> world" where
  "issue c kwargs w = wrap AccessCard_init c (http_post c ''/v1/key-cards'' kwargs w)"

definition provision :: "client \<Rightarrow> dict \<Rightarrow> world \<Rightarrow> (error + AccessCard) \<times> world" where
  "provision c kwargs w = issue c kwargs w"

definition update :: "client \<Rightarrow> string \<Rightarrow> dict \<Rightarrow> world \<Rightarrow> (error + AccessCard) \<times> world" where
  "update c cid kwargs w = wrap AccessCard_init c (http_put c (''/v1/key-cards/'' @ cid) kwargs w)"

definition manage :: "client \<Rightarrow> string \<Rightarrow> string \<Rightarrow> world \<Rightarrow> (error + AccessCard) \<times> world" where
  "manage c cid action w =
     wrap AccessCard_init c (http_post c (''/v1/key-cards/'' @ cid @ ''/'' @ action) [] w)"

definition suspend :: "client \<Rightarrow> string \<Rightarrow> world \<Rightarrow> (error + AccessCard) \<times> world" where
  "suspend c cid w = manage c cid ''suspend'' w"

definition resume :: "client \<Rightarrow> string \<Rightarrow> world \<Rightarrow> (error + AccessCard) \<times> world" where
  "resume c cid w = manage c cid ''resume'' w"

definition unlink :: "client \<Rightarrow> string \<Rightarrow> world \<Rightarrow> (error + AccessCard) \<times> world" where
  "unlink c cid w = manage c cid ''unlink'' w"

subsection \<open>\<^verbatim>\<open>Console\<close>\<close>

definition create_template :: "client \<Rightarrow> dict \<Rightarrow> world \<Rightarrow> (error + Template) \<times> world" where
  "create_template c kwargs w =
     wrap Template_init c (http_post c ''/v1/console/card-templates'' kwargs w)"

definition update_template ::
  "client \<Rightarrow> string \<Rightarrow> dict \<Rightarrow> world \<Rightarrow> (error + Template) \<times> world" where
  "update_template c tid kwargs w =
     wrap Template_init c (http_put c (''/v1/console/card-templates/'' @ tid) kwargs w)"

definition read_template :: "client \<Rightarrow> string \<Rightarrow> world \<Rightarrow> (error + Template) \<times> world" where
  "read_template c tid w =
     wrap Template_init c (http_get c (''/v1/console/card-templates/'' @ tid) None w)"

definition get_logs :: "client \<Rightarrow> string \<Rightarrow> dict \<Rightarrow> world \<Rightarrow> (error + json) \<times> world" where
  "get_logs c tid kwargs w =
     http_get c (''/v1/console/card-templates/'' @ tid @ ''/logs'') (Some kwargs) w"

section \<open>Reading a request, and the inputs of the examples\<close>

definition header :: "string \<Rightarrow> request \<Rightarrow> string option" where
  "header name req = map_of (req_headers req) name"

text \<open>What goes over the wire apart from the headers: method, URL and body.\<close>

definition wire :: "request \<Rightarrow> string \<times> string \<times> dict option" where
  "wire req = (req_method req, req_url req, req_json req)"

text \<open>
  The signature as the specification words it: the lowercase hexadecimal HMAC-SHA256,
  keyed by the secret, of the base64 text of the UTF-8 bytes of the JSON text of the
  body, the empty string when there is no body.
\<close>

definition spec_signature :: "string \<Rightarrow> dict option \<Rightarrow> string" where
  "spec_signature key body =
     hexdigest (hmac_sha256 (encode key)
       (encode (decode (b64encode (encode
          (case body of None \<Rightarrow> [] | Some kvs \<Rightarrow> dumps (JObject kvs)))))))"

definition example_client :: client where
  "example_client =
     \<lparr>account_id = ''acct_1'', secret_key = ''s3cret'', base_url = ''https://api.accessgrid.com''\<rparr>"

text \<open>A world in which nothing was sent yet and the service answers every request alike.\<close>

definition answering :: "string + response \<Rightarrow> world" where
  "answering a = \<lparr>server = (\<lambda>req. a), version = ''1.0.0'', sent = []\<rparr>"

definition jane :: dict where
  "jane = [(''full_name'', JString ''Jane Doe''), (''expiration_date'', JString ''2026-01-01'')]"

definition card_response :: response where
  \<open>card_response =
     \<lparr>status_code = 200, resp_text = ''{"id": "card_1", "state": "active"}'',
      resp_json = Inr (JObject [(''id'', JString ''card_1''), (''state'', JString ''active'')])\<rparr>\<close>




text \<open>The empty body is no JSON document: \<^verbatim>\<open>json()\<close> raises on it.\<close>

definition empty_response :: "int \<Rightarrow> response" where
  "empty_response code =
     \<lparr>status_code = code, resp_text = [],
      resp_json = Inl ''Expecting value: line 1 column 1 (char 0)''\<rparr>"


text \<open>The keys a constructor reads, each with the attribute it fills.\<close>

definition AccessCard_fields :: "(string \<times> (AccessCard \<Rightarrow> json)) list" where
  "AccessCard_fields =
     [(''id'', card_id), (''install_url'', card_url), (''state'', card_state),
      (''full_name'', card_full_name), (''expiration_date'', card_expiration_date)]"

definition Template_fields :: "(string \<times> (Template \<Rightarrow> json)) list" where
  "Template_fields =
     [(''id'', template_id), (''name'', template_name), (''platform'', template_platform),
      (''use_case'', template_use_case), (''protocol'', template_protocol),
      (''created_at'', template_created_at),
      (''last_published_at'', template_last_published_at),
      (''issued_keys_count'', template_issued_keys_count),
      (''active_keys_count'', template_active_keys_count),
      (''allowed_device_counts'', template_allowed_device_counts),
      (''support_settings'', template_support_settings),
      (''terms_settings'', template_terms_settings),
      (''style_settings'', template_style_settings)]"

section \<open>Signing\<close>


lemma sent_make_request:
  "sent (snd (make_request c method endpoint data params w)) =
     sent w @ [build_request c method endpoint data params w]"
  by (simp add: make_request_def requests_request_def)

lemma sent_wrap: "sent (snd (wrap init c rw)) = sent (snd rw)"
  by (simp add: wrap_def)

lemma signature_header:
  "header ''X-PAYLOAD-SIG'' (build_request c method endpoint data params w) =
     Some (generate_signature c (payload_of data))"
  by (simp add: header_def build_request_def)

lemma payload_json_of:
  "payload_of data = (case json_of data of None \<Rightarrow> [] | Some kvs \<Rightarrow> dumps (JObject kvs))"
  by (simp add: payload_of_def json_of_def split: option.split)

lemma dumps_jane:
  \<open>dumps (JObject jane) = ''{"full_name": "Jane Doe", "expiration_date": "2026-01-01"}''\<close>
  by (simp add: jane_def json_quote_def json_escape_def)

lemma b64_jane:
  \<open>decode (b64encode (encode ''{"full_name": "Jane Doe", "expiration_date": "2026-01-01"}'')) =
   ''eyJmdWxsX25hbWUiOiAiSmFuZSBEb2UiLCAiZXhwaXJhdGlvbl9kYXRlIjogIjIwMjYtMDEtMDEifQ==''\<close>
  by (simp add: encode_def utf8_char_def decode_def b64_digit_def char_of_eq_iff)

text \<open>
  Claim C1. Every request carries in \<^verbatim>\<open>X-PAYLOAD-SIG\<close> the lowercase hexadecimal
  HMAC-SHA256, keyed by the client's secret key, of the base64 text of the UTF-8 bytes
  of the JSON text of the body that is sent, the empty string when no body is sent.
  Issuing a card for Jane Doe with the secret \<^verbatim>\<open>s3cret\<close> signs the base64 text of the
  JSON text with the separators \<^verbatim>\<open>", "\<close> and \<^verbatim>\<open>": "\<close>, which is written out in the
  last equation.
\<close>

theorem payload_signature:
  \<open>sent (snd (make_request c method endpoint data params w)) =
     sent w @ [build_request c method endpoint data params w]
   \<and> header ''X-PAYLOAD-SIG'' (build_request c method endpoint data params w) =
     Some (spec_signature (secret_key c)
             (req_json (build_request c method endpoint data params w)))
   \<and> sent (snd (issue example_client jane w)) =
     sent w @ [build_request example_client ''POST'' ''/v1/key-cards'' (Some jane) None w]
   \<and> header ''X-PAYLOAD-SIG''
       (build_request example_client ''POST'' ''/v1/key-cards'' (Some jane) None w) =
     Some (hexdigest (hmac_sha256 (encode ''s3cret'')
       (encode (decode (b64encode (encode
          ''{"full_name": "Jane Doe", "expiration_date": "2026-01-01"}''))))))
   \<and> header ''X-PAYLOAD-SIG''
       (build_request example_client ''POST'' ''/v1/key-cards'' (Some jane) None w) =
     Some (hexdigest (hmac_sha256 (encode ''s3cret'')
       (encode ''eyJmdWxsX25hbWUiOiAiSmFuZSBEb2UiLCAiZXhwaXJhdGlvbl9kYXRlIjogIjIwMjYtMDEtMDEifQ=='')))\<close>
proof -
  have body: "req_json (build_request c method endpoint data params w) = json_of data"
    by (simp add: build_request_def)
  have general: "header ''X-PAYLOAD-SIG'' (build_request c method endpoint data params w) =
     Some (spec_signature (secret_key c)
             (req_json (build_request c method endpoint data params w)))"
    unfolding body signature_header
    by (simp add: generate_signature_def spec_signature_def payload_json_of)
  have jane_sent: "sent (snd (issue example_client jane w)) =
     sent w @ [build_request example_client ''POST'' ''/v1/key-cards'' (Some jane) None w]"
    by (simp add: issue_def http_post_def sent_wrap sent_make_request)
  have "payload_of (Some jane) = dumps (JObject jane)"
    by (simp add: payload_of_def jane_def)
  then have jane_sig: \<open>header ''X-PAYLOAD-SIG''
       (build_request example_client ''POST'' ''/v1/key-cards'' (Some jane) None w) =
     Some (hexdigest (hmac_sha256 (encode ''s3cret'')
       (encode (decode (b64encode (encode
          ''{"full_name": "Jane Doe", "expiration_date": "2026-01-01"}''))))))\<close>
    unfolding signature_header
    by (simp only: generate_signature_def dumps_jane Let_def example_client_def client.simps)
  from jane_sig have jane_text: \<open>header ''X-PAYLOAD-SIG''
       (build_request example_client ''POST'' ''/v1/key-cards'' (Some jane) None w) =
     Some (hexdigest (hmac_sha256 (encode ''s3cret'')
       (encode ''eyJmdWxsX25hbWUiOiAiSmFuZSBEb2UiLCAiZXhwaXJhdGlvbl9kYXRlIjogIjIwMjYtMDEtMDEifQ=='')))\<close>
    by (simp only: b64_jane)
  from sent_make_request general jane_sent jane_sig jane_text show ?thesis by blast
qed


section \<open>What each operation sends\<close>

lemma url_build_request:
  "req_url (build_request c method endpoint data params w) = base_url c @ endpoint"
  by (simp add: build_request_def)

lemma wire_build_request:
  "wire (build_request c method endpoint data params w) =
     (method, base_url c @ endpoint, json_of data)"
  by (simp add: wire_def build_request_def)

lemma sent_http_post:
  "sent (snd (http_post c endpoint data w)) =
     sent w @ [build_request c ''POST'' endpoint (Some data) None w]"
  by (simp add: http_post_def sent_make_request)

lemma sent_http_put:
  "sent (snd (http_put c endpoint data w)) =
     sent w @ [build_request c ''PUT'' endpoint (Some data) None w]"
  by (simp add: http_put_def sent_make_request)

lemma sent_http_get:
  "sent (snd (http_get c endpoint params w)) =
     sent w @ [build_request c ''GET'' endpoint None params w]"
  by (simp add: http_get_def sent_make_request)

lemma sent_manage:
  "sent (snd (manage c cid action w)) =
     sent w @ [build_request c ''POST'' (''/v1/key-cards/'' @ cid @ ''/'' @ action) (Some []) None w]"
  by (simp add: manage_def sent_wrap sent_http_post)

lemma b64encode_empty: "decode (b64encode (encode [])) = []"
  by (simp add: encode_def decode_def)

section \<open>Requests without a body\<close>

text \<open>
  Claim C3. A call that supplies no body sends none, and the text that is signed is
  the base64 text of the empty string, which is the empty string: the signature is the
  hexadecimal HMAC-SHA256 of it under the secret key. The payload is not the JSON text
  \<^verbatim>\<open>null\<close>. The empty dict is signed in the same way.
\<close>

theorem empty_body_signature:
  "sent (snd (make_request c verb endpoint None params w)) =
     sent w @ [build_request c verb endpoint None params w]
   \<and> req_json (build_request c verb endpoint None params w) = None
   \<and> header ''X-PAYLOAD-SIG'' (build_request c verb endpoint None params w) =
     Some (hexdigest (hmac_sha256 (encode (secret_key c))
             (encode (decode (b64encode (encode []))))))
   \<and> decode (b64encode (encode [])) = []
   \<and> payload_of None = [] \<and> payload_of None \<noteq> dumps JNull
   \<and> header ''X-PAYLOAD-SIG'' (build_request c verb endpoint (Some []) params w) =
     header ''X-PAYLOAD-SIG'' (build_request c verb endpoint None params w)"
proof -
  have none: "payload_of None = []" and empty: "payload_of (Some []) = []"
    by (simp_all add: payload_of_def)
  from none have "header ''X-PAYLOAD-SIG'' (build_request c verb endpoint None params w) =
     Some (hexdigest (hmac_sha256 (encode (secret_key c))
             (encode (decode (b64encode (encode []))))))"
    by (simp add: signature_header generate_signature_def)
  moreover have "req_json (build_request c verb endpoint None params w) = None"
    by (simp add: build_request_def json_of_def)
  moreover have "header ''X-PAYLOAD-SIG'' (build_request c verb endpoint (Some []) params w) =
     header ''X-PAYLOAD-SIG'' (build_request c verb endpoint None params w)"
    by (simp add: signature_header none empty)
  ultimately show ?thesis
    using sent_make_request [of c verb endpoint None params w] b64encode_empty none by simp
qed

section \<open>The resource clients\<close>

text \<open>
  Claim C5. \<^verbatim>\<open>provision\<close> and \<^verbatim>\<open>issue\<close> on the same fields, in the same world, give
  the same outcome (the same entity or the same error) and hand the same single request
  to the HTTP library.
\<close>

theorem provision_is_issue:
  "provision c kwargs w = issue c kwargs w
   \<and> fst (provision c kwargs w) = fst (issue c kwargs w)
   \<and> sent (snd (provision c kwargs w)) = sent (snd (issue c kwargs w))
   \<and> sent (snd (provision c kwargs w)) =
       sent w @ [build_request c ''POST'' ''/v1/key-cards'' (Some kwargs) None w]"
  by (simp add: provision_def issue_def sent_wrap sent_http_post)

text \<open>
  Claim C10. The path of a request is the endpoint pattern with the card id, the
  template id and the action put in as they are, appended to the base URL: nothing is
  percent-encoded. An id with a slash, a question mark or a space stays as it is in the
  URL: suspending the card \<^verbatim>\<open>42/unlink?x=\<close> sends to the URL of the unlink endpoint of
  card 42, followed by a query string.
\<close>

theorem paths_interpolated_verbatim:
  "map req_url (sent (snd (manage c cid action w))) =
     map req_url (sent w) @ [base_url c @ ''/v1/key-cards/'' @ cid @ ''/'' @ action]
   \<and> map req_url (sent (snd (update c cid kwargs w))) =
     map req_url (sent w) @ [base_url c @ ''/v1/key-cards/'' @ cid]
   \<and> map req_url (sent (snd (update_template c tid kwargs w))) =
     map req_url (sent w) @ [base_url c @ ''/v1/console/card-templates/'' @ tid]
   \<and> map req_url (sent (snd (read_template c tid w))) =
     map req_url (sent w) @ [base_url c @ ''/v1/console/card-templates/'' @ tid]
   \<and> map req_url (sent (snd (get_logs c tid kwargs w))) =
     map req_url (sent w) @ [base_url c @ ''/v1/console/card-templates/'' @ tid @ ''/logs'']
   \<and> map req_url (sent (snd (suspend example_client ''42/unlink?x='' (answering (Inr card_response))))) =
     [''https://api.accessgrid.com/v1/key-cards/42/unlink?x=/suspend'']
   \<and> map req_url (sent (snd (read_template example_client ''a b/../c'' (answering (Inr card_response))))) =
     [''https://api.accessgrid.com/v1/console/card-templates/a b/../c'']"
proof -
  have "map req_url (sent (snd (suspend example_client ''42/unlink?x='' (answering (Inr card_response))))) =
     [''https://api.accessgrid.com/v1/key-cards/42/unlink?x=/suspend'']"
    by (simp add: suspend_def sent_manage url_build_request example_client_def answering_def)
  moreover have "map req_url (sent (snd (read_template example_client ''a b/../c'' (answering (Inr card_response))))) =
     [''https://api.accessgrid.com/v1/console/card-templates/a b/../c'']"
    by (simp add: read_template_def sent_wrap sent_http_get url_build_request
        example_client_def answering_def)
  ultimately show ?thesis
    by (simp add: sent_manage update_def update_template_def read_template_def get_logs_def
        sent_wrap sent_http_post sent_http_put sent_http_get url_build_request)
qed

text \<open>
  Claim C4, as amended. \<^verbatim>\<open>suspend\<close>, \<^verbatim>\<open>resume\<close> and \<^verbatim>\<open>unlink\<close> each hand exactly one
  request to the HTTP library: a POST to \<^verbatim>\<open>/v1/key-cards/{card_id}/{action}\<close> with that
  action and no body. \<^verbatim>\<open>manage\<close> does not check its action: for every action string it
  hands over exactly one such POST.
\<close>

theorem manage_posts_any_action:
  "map wire (sent (snd (manage c cid action w))) =
     map wire (sent w) @ [(''POST'', base_url c @ ''/v1/key-cards/'' @ cid @ ''/'' @ action, None)]
   \<and> map wire (sent (snd (suspend c cid w))) =
     map wire (sent w) @ [(''POST'', base_url c @ ''/v1/key-cards/'' @ cid @ ''/suspend'', None)]
   \<and> map wire (sent (snd (resume c cid w))) =
     map wire (sent w) @ [(''POST'', base_url c @ ''/v1/key-cards/'' @ cid @ ''/resume'', None)]
   \<and> map wire (sent (snd (unlink c cid w))) =
     map wire (sent w) @ [(''POST'', base_url c @ ''/v1/key-cards/'' @ cid @ ''/unlink'', None)]"
  by (simp add: suspend_def resume_def unlink_def sent_manage wire_build_request json_of_def)

text \<open>
  Claim C4 as stated fails: \<^verbatim>\<open>manage\<close> with the action \<^verbatim>\<open>delete\<close>, which is none of
  the three, is not rejected. The request is sent and the answer becomes a card.
\<close>

theorem manage_unknown_action_sent:
  "''delete'' \<notin> {''suspend'', ''resume'', ''unlink''}
   \<and> sent (answering (Inr card_response)) = []
   \<and> map wire (sent (snd (manage example_client ''card_1'' ''delete'' (answering (Inr card_response))))) =
       [(''POST'', ''https://api.accessgrid.com/v1/key-cards/card_1/delete'', None)]
   \<and> fst (manage example_client ''card_1'' ''delete'' (answering (Inr card_response))) =
       Inr \<lparr>card_client = example_client, card_id = JString ''card_1'', card_url = JNull,
            card_state = JString ''active'', card_full_name = JNull,
            card_expiration_date = JNull\<rparr>"
proof -
  have "fst (manage example_client ''card_1'' ''delete'' (answering (Inr card_response))) =
       Inr \<lparr>card_client = example_client, card_id = JString ''card_1'', card_url = JNull,
            card_state = JString ''active'', card_full_name = JNull,
            card_expiration_date = JNull\<rparr>"
    by (simp add: manage_def wrap_def http_post_def make_request_def requests_request_def
        answering_def card_response_def check_response_def response_json_def
        except_RequestException_def AccessCard_init_def get_or_None_def)
  then show ?thesis
    by (simp add: sent_manage wire_build_request json_of_def example_client_def answering_def)
qed

section \<open>Entities from incomplete answers\<close>

lemma AccessCard_init_dict:
  "AccessCard_init c (JObject kvs) =
     Inr \<lparr>card_client = c,
          card_id = get_or_None kvs ''id'',
          card_url = get_or_None kvs ''install_url'',
          card_state = get_or_None kvs ''state'',
          card_full_name = get_or_None kvs ''full_name'',
          card_expiration_date = get_or_None kvs ''expiration_date''\<rparr>"
  by (simp add: AccessCard_init_def)

text \<open>
  Claim C6. From every response mapping an \<^verbatim>\<open>AccessCard\<close> and a \<^verbatim>\<open>Template\<close> are
  constructed without an error, whichever keys are missing: each attribute is the value
  under its key, and \<^verbatim>\<open>None\<close> when the key is absent.
\<close>

theorem entities_tolerate_missing_fields:
  "\<exists>card t. AccessCard_init c (JObject kvs) = Inr card
     \<and> Template_init c (JObject kvs) = Inr t
     \<and> (\<forall>(key, attr) \<in> set AccessCard_fields.
           attr card = (case map_of kvs key of None \<Rightarrow> JNull | Some v \<Rightarrow> v))
     \<and> (\<forall>(key, attr) \<in> set Template_fields.
           attr t = (case map_of kvs key of None \<Rightarrow> JNull | Some v \<Rightarrow> v))"
  by (simp add: AccessCard_init_def Template_init_def AccessCard_fields_def
      Template_fields_def get_or_None_def)

text \<open>A mapping that holds only the id: every other attribute is \<^verbatim>\<open>None\<close>.\<close>

theorem entities_tolerate_missing_fields_witness:
  "\<exists>card t. AccessCard_init example_client (JObject [(''id'', JString ''card_1'')]) = Inr card
     \<and> Template_init example_client (JObject [(''id'', JString ''card_1'')]) = Inr t
     \<and> card_id card = JString ''card_1'' \<and> card_url card = JNull \<and> card_state card = JNull
     \<and> card_full_name card = JNull \<and> card_expiration_date card = JNull
     \<and> template_id t = JString ''card_1'' \<and> template_name t = JNull
     \<and> template_platform t = JNull \<and> template_style_settings t = JNull"
  using entities_tolerate_missing_fields [of example_client "[(''id'', JString ''card_1'')]"]
  by (simp add: AccessCard_fields_def Template_fields_def) blast


section \<open>Constructing the client\<close>

lemma rstrip_replicate: "\<exists>n. s = rstrip c s @ replicate n c"
proof -
  have "takeWhile (\<lambda>x. x = c) (rev s) = replicate (length (takeWhile (\<lambda>x. x = c) (rev s))) c"
    by (rule replicate_length_same [symmetric]) (auto dest: set_takeWhileD)
  moreover have "rev s = takeWhile (\<lambda>x. x = c) (rev s) @ dropWhile (\<lambda>x. x = c) (rev s)"
    by simp
  then have "s = rev (dropWhile (\<lambda>x. x = c) (rev s)) @ rev (takeWhile (\<lambda>x. x = c) (rev s))"
    by (metis rev_append rev_rev_ident)
  ultimately have "s = rstrip c s @ replicate (length (takeWhile (\<lambda>x. x = c) (rev s))) c"
    by (metis rstrip_def rev_replicate)
  then show ?thesis ..
qed

lemma rstrip_last: "rstrip c s = [] \<or> last (rstrip c s) \<noteq> c"
proof (cases "dropWhile (\<lambda>x. x = c) (rev s)")
  case Nil
  then show ?thesis by (simp add: rstrip_def)
next
  case (Cons y ys)
  then have "y \<noteq> c"
    using hd_dropWhile [of "\<lambda>x. x = c" "rev s"] by auto
  with Cons show ?thesis by (simp add: rstrip_def)
qed

lemma account_header:
  "header ''X-ACCT-ID'' (build_request c method endpoint data params w) = Some (account_id c)"
  by (simp add: header_def build_request_def)

text \<open>
  Claim C7. With an account id or a secret key that is \<^verbatim>\<open>None\<close> or empty the
  constructor raises \<^verbatim>\<open>ValueError\<close>, the client's configuration error, and leaves the
  world as it was: nothing is sent. Otherwise it returns a client that stores the account
  id and the secret key as given and the base URL (the default when none is given)
  without its trailing slashes. The operations take the client and return no new one;
  every request they build has its URL from the stored base URL, its account header
  from the stored account id and its signature keyed by the stored secret.
\<close>

theorem construction_validates:
  "(acct = None \<or> acct = Some [] \<or> secret = None \<or> secret = Some [] \<longrightarrow>
      (\<exists>m. AccessGrid_init acct secret url w = (Inl (ValueError m), w)))
   \<and> (\<forall>a k. acct = Some a \<and> a \<noteq> [] \<and> secret = Some k \<and> k \<noteq> [] \<longrightarrow>
        (\<exists>c n. AccessGrid_init acct secret url w = (Inr c, w)
           \<and> account_id c = a \<and> secret_key c = k
           \<and> (case url of None \<Rightarrow> ''https://api.accessgrid.com'' | Some u \<Rightarrow> u) =
               base_url c @ replicate n CHR ''/''
           \<and> (base_url c = [] \<or> last (base_url c) \<noteq> CHR ''/'')
           \<and> (\<forall>method endpoint data params w'.
                 req_url (build_request c method endpoint data params w') = base_url c @ endpoint
               \<and> header ''X-ACCT-ID'' (build_request c method endpoint data params w') = Some a
               \<and> header ''X-PAYLOAD-SIG'' (build_request c method endpoint data params w') =
                   Some (spec_signature k (json_of data)))))"
proof (intro conjI impI allI)
  assume "acct = None \<or> acct = Some [] \<or> secret = None \<or> secret = Some []"
  then show "\<exists>m. AccessGrid_init acct secret url w = (Inl (ValueError m), w)"
    by (auto simp: AccessGrid_init_def split: option.split)
next
  fix a k
  assume ok: "acct = Some a \<and> a \<noteq> [] \<and> secret = Some k \<and> k \<noteq> []"
  define u where "u = (case url of None \<Rightarrow> ''https://api.accessgrid.com'' | Some u \<Rightarrow> u)"
  define c where "c = \<lparr>account_id = a, secret_key = k, base_url = rstrip CHR ''/'' u\<rparr>"
  obtain n where n: "u = rstrip CHR ''/'' u @ replicate n CHR ''/''"
    using rstrip_replicate by blast
  have init: "AccessGrid_init acct secret url w = (Inr c, w)"
    using ok by (simp add: AccessGrid_init_def c_def u_def)
  have sig: "header ''X-PAYLOAD-SIG'' (build_request c verb path data params w') =
      Some (spec_signature k (json_of data))" for verb path data params w'
    by (simp add: signature_header generate_signature_def spec_signature_def payload_json_of c_def)
  have "account_id c = a \<and> secret_key c = k
      \<and> u = base_url c @ replicate n CHR ''/''
      \<and> (base_url c = [] \<or> last (base_url c) \<noteq> CHR ''/'')"
    using n rstrip_last [of "CHR ''/''" u] by (simp add: c_def)
  moreover have "\<forall>method endpoint data params w'.
      req_url (build_request c method endpoint data params w') = base_url c @ endpoint
      \<and> header ''X-ACCT-ID'' (build_request c method endpoint data params w') = Some a
      \<and> header ''X-PAYLOAD-SIG'' (build_request c method endpoint data params w') =
          Some (spec_signature k (json_of data))"
    using sig by (simp add: url_build_request account_header) (simp add: c_def)
  ultimately show "\<exists>c n. AccessGrid_init acct secret url w = (Inr c, w)
           \<and> account_id c = a \<and> secret_key c = k
           \<and> (case url of None \<Rightarrow> ''https://api.accessgrid.com'' | Some u \<Rightarrow> u) =
               base_url c @ replicate n CHR ''/''
           \<and> (base_url c = [] \<or> last (base_url c) \<noteq> CHR ''/'')
           \<and> (\<forall>method endpoint data params w'.
                 req_url (build_request c method endpoint data params w') = base_url c @ endpoint
               \<and> header ''X-ACCT-ID'' (build_request c method endpoint data params w') = Some a
               \<and> header ''X-PAYLOAD-SIG'' (build_request c method endpoint data params w') =
                   Some (spec_signature k (json_of data)))"
    using init unfolding u_def [symmetric] by blast
qed

text \<open>
  An empty secret key, an account id \<^verbatim>\<open>None\<close>, and a staging URL with two trailing
  slashes.
\<close>

theorem construction_validates_witness:
  "(\<exists>m. AccessGrid_init (Some ''acct_1'') (Some []) None (answering (Inr card_response)) =
         (Inl (ValueError m), answering (Inr card_response)))
   \<and> (\<exists>m. AccessGrid_init None (Some ''s3cret'') None (answering (Inr card_response)) =
         (Inl (ValueError m), answering (Inr card_response)))
   \<and> (\<exists>c n. AccessGrid_init (Some ''acct_1'') (Some ''s3cret'') (Some ''https://staging.example.com//'')
           (answering (Inr card_response)) = (Inr c, answering (Inr card_response))
         \<and> account_id c = ''acct_1'' \<and> secret_key c = ''s3cret''
         \<and> ''https://staging.example.com//'' = base_url c @ replicate n CHR ''/''
         \<and> (base_url c = [] \<or> last (base_url c) \<noteq> CHR ''/''))"
proof -
  have "\<exists>m. AccessGrid_init (Some ''acct_1'') (Some []) None (answering (Inr card_response)) =
         (Inl (ValueError m), answering (Inr card_response))"
    using construction_validates [of "Some ''acct_1''" "Some []" None "answering (Inr card_response)"]
    by simp
  moreover have "\<exists>m. AccessGrid_init None (Some ''s3cret'') None (answering (Inr card_response)) =
         (Inl (ValueError m), answering (Inr card_response))"
    using construction_validates [of None "Some ''s3cret''" None "answering (Inr card_response)"]
    by simp
  moreover have "\<exists>c n. AccessGrid_init (Some ''acct_1'') (Some ''s3cret'') (Some ''https://staging.example.com//'')
           (answering (Inr card_response)) = (Inr c, answering (Inr card_response))
         \<and> account_id c = ''acct_1'' \<and> secret_key c = ''s3cret''
         \<and> ''https://staging.example.com//'' = base_url c @ replicate n CHR ''/''
         \<and> (base_url c = [] \<or> last (base_url c) \<noteq> CHR ''/'')"
    using construction_validates [of "Some ''acct_1''" "Some ''s3cret''"
        "Some ''https://staging.example.com//''" "answering (Inr card_response)"]
    by simp blast
  ultimately show ?thesis by blast
qed

section \<open>Classifying the response\<close>


lemma except_Auth [simp]:
  "except_RequestException (Inl (AuthenticationError m)) = Inl (AuthenticationError m)"
  by (simp add: except_RequestException_def)

lemma except_AccessGrid [simp]:
  "except_RequestException (Inl (AccessGridError m)) = Inl (AccessGridError m)"
  by (simp add: except_RequestException_def)

lemma except_Request [simp]:
  "except_RequestException (Inl (RequestException m)) = Inl (AccessGridError (''Request failed: '' @ m))"
  by (simp add: except_RequestException_def)

lemma except_Inr [simp]: "except_RequestException (Inr v) = Inr v"
  by (simp add: except_RequestException_def)






text \<open>
  Claim C8 on a 204 with an empty body: \<^verbatim>\<open>_make_request\<close> returns no empty mapping,
  the decoding error of \<^verbatim>\<open>response.json()\<close> is raised as an \<^verbatim>\<open>AccessGridError\<close>. The
  branch for the other statuses does guard the empty body
  (\<^verbatim>\<open>response.json() if response.text else {}\<close>): a 503 with an empty body is read as
  the empty mapping.
\<close>

theorem empty_success_body_raises:
  "status_code (empty_response 204) = 204
   \<and> resp_text (empty_response 204) = []
   \<and> fst (http_post example_client ''/v1/key-cards/card_1/unlink'' []
          (answering (Inr (empty_response 204)))) =
       Inl (AccessGridError ''Request failed: Expecting value: line 1 column 1 (char 0)'')
   \<and> fst (unlink example_client ''card_1'' (answering (Inr (empty_response 204)))) =
       Inl (AccessGridError ''Request failed: Expecting value: line 1 column 1 (char 0)'')
   \<and> fst (http_post example_client ''/v1/key-cards/card_1/unlink'' []
          (answering (Inr (empty_response 503)))) =
       Inl (AccessGridError ''API request failed: '')"
  by (simp add: unlink_def manage_def wrap_def http_post_def make_request_def
      requests_request_def answering_def check_response_def response_json_def dict_get_def
      py_str_def empty_response_def)

section \<open>The signature as a function of secret and body\<close>









end
